theory Spec2Isabelle
  imports Main "HOL-Library.Word"
begin

unbundle bit_operations_syntax

section \<open>Python values\<close>

text \<open>
  The program is dynamically typed: a \<open>Planet\<close> stores whatever \<open>json.load\<close> produced
  for each key, unchecked. The values \<open>json.load\<close> can return are modelled by \<open>pyval\<close>:
  \<open>null\<close>, booleans, integers, floats (the 64 bits of the IEEE double; the program never
  computes with them), strings, arrays, and objects. A \<open>dict\<close> is the association list of
  its items in insertion order, read with \<open>map_of\<close>.

  A Python \<open>str\<close> is a sequence of code points. The model's \<open>string\<close> holds one code
  point per \<open>char\<close>, which covers the code points U+0000 to U+00FF.
\<close>

datatype pyval =
    PNone
  | PBool bool
  | PInt int
  | PFloat "64 word"
  | PStr string
  | PList "pyval list"
  | PDict "(string \<times> pyval) list"

text \<open>The exceptions the program can meet. \<open>PermissionError\<close> stands for every \<open>OSError\<close>
  of \<open>open\<close> other than \<open>FileNotFoundError\<close>.\<close>

datatype error =
    FileNotFoundError
  | PermissionError
  | JSONDecodeError
  | KeyError string
  | TypeError
  | AttributeError

type_synonym 'a outcome = "error + 'a"

subsection \<open>\<open>str.lower\<close>\<close>

text \<open>On U+0000 to U+00FF the upper-case letters are \<open>A\<close> to \<open>Z\<close> (65 to 90) and the
  Latin-1 capitals 192 to 214 and 216 to 222; the lower-case form of each is 32 above it.
  Every other code point of that range is its own lower-case form.\<close>

definition lower_char :: "char \<Rightarrow> char" where
  "lower_char c =
     (let n = (of_char c :: nat)
      in if (65 \<le> n \<and> n \<le> 90) \<or> (192 \<le> n \<and> n \<le> 214) \<or> (216 \<le> n \<and> n \<le> 222)
         then char_of (n + 32) else c)"

definition str_lower :: "string \<Rightarrow> string" where
  "str_lower s = map lower_char s"

text \<open>\<open>v.lower()\<close> on an arbitrary value: only a \<open>str\<close> has the method.\<close>

definition py_lower :: "pyval \<Rightarrow> string outcome" where
  "py_lower v = (case v of PStr s \<Rightarrow> Inr (str_lower s) | _ \<Rightarrow> Inl AttributeError)"

subsection \<open>Iteration, subscription, truth value, \<open>len\<close>, \<open>join\<close>, formatting\<close>

text \<open>\<open>for x in v\<close>: a list yields its elements, a dict its keys, a string its
  characters; nothing else is iterable.\<close>

definition py_iter :: "pyval \<Rightarrow> pyval list outcome" where
  "py_iter v =
     (case v of
        PList xs \<Rightarrow> Inr xs
      | PDict kvs \<Rightarrow> Inr (map (\<lambda>kv. PStr (fst kv)) kvs)
      | PStr s \<Rightarrow> Inr (map (\<lambda>c. PStr [c]) s)
      | _ \<Rightarrow> Inl TypeError)"

text \<open>\<open>v[key]\<close> with a string key: a dict looks the key up and raises \<open>KeyError\<close> when it
  is absent; every other value raises \<open>TypeError\<close>.\<close>

definition py_getitem :: "pyval \<Rightarrow> string \<Rightarrow> pyval outcome" where
  "py_getitem v k =
     (case v of
        PDict kvs \<Rightarrow> (case map_of kvs k of None \<Rightarrow> Inl (KeyError k) | Some x \<Rightarrow> Inr x)
      | _ \<Rightarrow> Inl TypeError)"

definition py_truth :: "pyval \<Rightarrow> bool" where
  "py_truth v =
     (case v of
        PNone \<Rightarrow> False
      | PBool b \<Rightarrow> b
      | PInt i \<Rightarrow> i \<noteq> 0
      | PFloat w \<Rightarrow> push_bit 1 w \<noteq> 0
      | PStr s \<Rightarrow> s \<noteq> []
      | PList xs \<Rightarrow> xs \<noteq> []
      | PDict kvs \<Rightarrow> kvs \<noteq> [])"

definition py_len :: "pyval \<Rightarrow> nat outcome" where
  "py_len v =
     (case v of
        PStr s \<Rightarrow> Inr (length s)
      | PList xs \<Rightarrow> Inr (length xs)
      | PDict kvs \<Rightarrow> Inr (length kvs)
      | _ \<Rightarrow> Inl TypeError)"

fun str_join :: "string \<Rightarrow> string list \<Rightarrow> string" where
  "str_join sep [] = []"
| "str_join sep [x] = x"
| "str_join sep (x # y # ys) = x @ sep @ str_join sep (y # ys)"

fun strs_of :: "pyval list \<Rightarrow> string list outcome" where
  "strs_of [] = Inr []"
| "strs_of (PStr s # vs) = (case strs_of vs of Inl e \<Rightarrow> Inl e | Inr ss \<Rightarrow> Inr (s # ss))"
| "strs_of (_ # vs) = Inl TypeError"

text \<open>\<open>sep.join(v)\<close>: \<open>v\<close> must be iterable and every item a \<open>str\<close>.\<close>

definition py_join :: "string \<Rightarrow> pyval \<Rightarrow> string outcome" where
  "py_join sep v =
     (case py_iter v of
        Inl e \<Rightarrow> Inl e
      | Inr items \<Rightarrow> (case strs_of items of Inl e \<Rightarrow> Inl e | Inr ss \<Rightarrow> Inr (str_join sep ss)))"

fun show_nat :: "nat \<Rightarrow> string" where
  "show_nat n =
     (if n < 10 then [char_of (48 + n)]
      else show_nat (n div 10) @ [char_of (48 + n mod 10)])"

declare show_nat.simps [simp del]

definition show_int :: "int \<Rightarrow> string" where
  "show_int i = (if i < 0 then CHR ''-'' # show_nat (nat (- i)) else show_nat (nat i))"

text \<open>A replacement field \<open>{v}\<close> of an f-string is \<open>str(v)\<close>: a string is inserted as it
  is, an integer in decimal. The text Python prints for a float, a list or a dict is not
  defined by this program; it is the parameter \<open>builtin_str\<close>.\<close>

definition py_format :: "(pyval \<Rightarrow> string) \<Rightarrow> pyval \<Rightarrow> string" where
  "py_format builtin_str v =
     (case v of
        PStr s \<Rightarrow> s
      | PInt i \<Rightarrow> show_int i
      | PBool b \<Rightarrow> (if b then ''True'' else ''False'')
      | PNone \<Rightarrow> ''None''
      | _ \<Rightarrow> builtin_str v)"

section \<open>\<open>class Planet\<close>\<close>

record planet =
  name :: pyval
  mass :: pyval
  distance_from_sun :: pyval
  moons :: pyval

definition Planet :: "pyval \<Rightarrow> pyval \<Rightarrow> pyval \<Rightarrow> pyval \<Rightarrow> planet" where
  "Planet n m d ms = \<lparr>name = n, mass = m, distance_from_sun = d, moons = ms\<rparr>"

text \<open>\<open>Planet.__str__\<close>: four lines; the last shows the moons joined by \<open>', '\<close>, or
  \<open>None\<close> when \<open>self.moons\<close> is false.\<close>

definition Planet_str :: "(pyval \<Rightarrow> string) \<Rightarrow> planet \<Rightarrow> string outcome" where
  "Planet_str builtin_str self =
     (case (if py_truth (moons self) then py_join '', '' (moons self) else Inr ''None'') of
        Inl e \<Rightarrow> Inl e
      | Inr ms \<Rightarrow>
          Inr (''Name: '' @ py_format builtin_str (name self) @ [CHR 0x0A]
             @ ''Mass: '' @ py_format builtin_str (mass self) @ '' kg'' @ [CHR 0x0A]
             @ ''Distance from Sun: '' @ py_format builtin_str (distance_from_sun self)
             @ '' km'' @ [CHR 0x0A]
             @ ''Moons: '' @ ms))"

section \<open>\<open>class SolarSystem\<close>\<close>

text \<open>
  The state the program works on: the \<open>planets\<close> list of the \<open>SolarSystem\<close> object, and
  the message boxes shown so far (\<open>tkinter.messagebox\<close> is the program's only output).
  Every method takes the state and returns its result together with the state after the
  call; a raised exception is \<open>Inl\<close>.
\<close>

datatype dialog = ShowError string string | ShowInfo string string

record world =
  planets :: "planet list"
  dialogs :: "dialog list"

definition showerror :: "string \<Rightarrow> string \<Rightarrow> world \<Rightarrow> world" where
  "showerror title message w = w\<lparr>dialogs := dialogs w @ [ShowError title message]\<rparr>"

definition showinfo :: "string \<Rightarrow> string \<Rightarrow> world \<Rightarrow> world" where
  "showinfo title message w = w\<lparr>dialogs := dialogs w @ [ShowInfo title message]\<rparr>"

text \<open>\<open>SolarSystem.__init__\<close>: \<open>self.planets = []\<close>.\<close>

definition SolarSystem_init :: "dialog list \<Rightarrow> world" where
  "SolarSystem_init shown = \<lparr>planets = [], dialogs = shown\<rparr>"

subsection \<open>\<open>load_data\<close>\<close>

text \<open>What \<open>open(full_path, 'r')\<close> followed by \<open>json.load(file)\<close> does for a path:
  \<open>open\<close> raises \<open>FileNotFoundError\<close>, \<open>open\<close> raises another \<open>OSError\<close>,
  \<open>json.load\<close> raises \<open>JSONDecodeError\<close>, or \<open>json.load\<close> returns a value.\<close>

datatype source = Missing | Unreadable | Malformed | Parsed pyval

text \<open>\<open>os.path.join\<close> of two components (POSIX).\<close>

definition os_path_join :: "string \<Rightarrow> string \<Rightarrow> string" where
  "os_path_join a b =
     (if take 1 b = ''/'' then b
      else if a = [] \<or> last a = CHR ''/'' then a @ b
      else a @ ''/'' @ b)"

text \<open>The four subscriptions of lines 38 and 39, left to right, then the constructor.\<close>

definition make_planet :: "pyval \<Rightarrow> planet outcome" where
  "make_planet planet_data =
     (case py_getitem planet_data ''name'' of
        Inl e \<Rightarrow> Inl e
      | Inr n \<Rightarrow>
         (case py_getitem planet_data ''mass'' of
            Inl e \<Rightarrow> Inl e
          | Inr m \<Rightarrow>
             (case py_getitem planet_data ''distance_from_sun'' of
                Inl e \<Rightarrow> Inl e
              | Inr d \<Rightarrow>
                 (case py_getitem planet_data ''moons'' of
                    Inl e \<Rightarrow> Inl e
                  | Inr ms \<Rightarrow> Inr (Planet n m d ms)))))"

text \<open>The loop of lines 37 to 40: each record is appended as soon as it is built, so an
  exception leaves the records appended before it in place.\<close>

fun load_data_loop :: "pyval list \<Rightarrow> world \<Rightarrow> unit outcome \<times> world" where
  "load_data_loop [] self = (Inr (), self)"
| "load_data_loop (planet_data # rest) self =
     (case make_planet planet_data of
        Inl e \<Rightarrow> (Inl e, self)
      | Inr p \<Rightarrow> load_data_loop rest (self\<lparr>planets := planets self @ [p]\<rparr>))"

definition not_found_message :: "string \<Rightarrow> string" where
  "not_found_message full_path =
     ''Data file not found. Ensure '' @ [CHR 0x27] @ ''planets.json'' @ [CHR 0x27]
     @ '' is in the same directory as the script: '' @ full_path"

text \<open>\<open>base_dir\<close> is the directory of the script and \<open>fs\<close> the file system, read through
  \<open>open\<close> and \<open>json.load\<close>. The only handler is \<open>except FileNotFoundError\<close>.\<close>

definition load_data :: "string \<Rightarrow> (string \<Rightarrow> source) \<Rightarrow> string \<Rightarrow> world \<Rightarrow> unit outcome \<times> world" where
  "load_data base_dir fs file_path self =
     (let full_path = os_path_join base_dir file_path
      in case fs full_path of
           Missing \<Rightarrow> (Inr (), showerror ''Error'' (not_found_message full_path) self)
         | Unreadable \<Rightarrow> (Inl PermissionError, self)
         | Malformed \<Rightarrow> (Inl JSONDecodeError, self)
         | Parsed data \<Rightarrow>
             (case py_iter data of
                Inl e \<Rightarrow> (Inl e, self)
              | Inr items \<Rightarrow> load_data_loop items self))"

subsection \<open>\<open>get_planet_by_name\<close>\<close>

text \<open>The loop of lines 46 to 49. \<open>planet.name.lower()\<close> is evaluated first and raises
  \<open>AttributeError\<close> when the stored name is not a string; the query is a string.\<close>

fun get_planet_by_name_loop :: "planet list \<Rightarrow> string \<Rightarrow> planet option outcome" where
  "get_planet_by_name_loop [] query = Inr None"
| "get_planet_by_name_loop (p # ps) query =
     (case py_lower (name p) of
        Inl e \<Rightarrow> Inl e
      | Inr n \<Rightarrow> if n = str_lower query then Inr (Some p) else get_planet_by_name_loop ps query)"

definition get_planet_by_name :: "string \<Rightarrow> world \<Rightarrow> planet option outcome \<times> world" where
  "get_planet_by_name query self = (get_planet_by_name_loop (planets self) query, self)"

subsection \<open>\<open>get_planet_by_name\<close> over the objects themselves\<close>

text \<open>
  The records, the list that holds them and the query are Python objects, passed by
  reference. To state what the method does to the objects it is given, lines 44 to 49 are
  modelled once more over an explicit store: one cell per object, addressed by its
  position, new objects allocated at the end. \<open>Value v\<close> is a string, or any other object
  \<open>json.load\<close> built, with all it contains; a \<open>Planet\<close> instance holds the addresses of
  its attributes \<open>name\<close>, \<open>mass\<close>, \<open>distance_from_sun\<close> and \<open>moons\<close>; a \<open>SolarSystem\<close>
  instance holds its list \<open>self.planets\<close>, the addresses of the records.
\<close>

type_synonym addr = nat

datatype obj =
    Value pyval
  | PlanetObj addr addr addr addr
  | SolarSystemObj "addr list"

type_synonym heap = "obj list"

text \<open>Python has no dangling reference; an address outside the store reads as no object,
  which has no attribute and no method.\<close>

definition deref :: "heap \<Rightarrow> addr \<Rightarrow> obj option" where
  "deref h a = (if a < length h then Some (h ! a) else None)"

definition alloc :: "obj \<Rightarrow> heap \<Rightarrow> addr \<times> heap" where
  "alloc ob h = (length h, h @ [ob])"

text \<open>\<open>self.planets\<close> and \<open>planet.name\<close>: only a \<open>SolarSystem\<close> has the first attribute
  and only a \<open>Planet\<close> the second.\<close>

definition getattr_planets :: "addr \<Rightarrow> heap \<Rightarrow> addr list outcome" where
  "getattr_planets a h =
     (case deref h a of Some (SolarSystemObj refs) \<Rightarrow> Inr refs | _ \<Rightarrow> Inl AttributeError)"

definition getattr_name :: "addr \<Rightarrow> heap \<Rightarrow> addr outcome" where
  "getattr_name a h =
     (case deref h a of Some (PlanetObj n m d ms) \<Rightarrow> Inr n | _ \<Rightarrow> Inl AttributeError)"

text \<open>\<open>v.lower()\<close> on the object at an address: a string returns a new string object and
  stays as it is; nothing else has the method.\<close>

definition lower_method :: "addr \<Rightarrow> heap \<Rightarrow> addr outcome \<times> heap" where
  "lower_method a h =
     (case deref h a of
        Some (Value v) \<Rightarrow>
          (case py_lower v of
             Inl e \<Rightarrow> (Inl e, h)
           | Inr s \<Rightarrow> (Inr (fst (alloc (Value (PStr s)) h)), snd (alloc (Value (PStr s)) h)))
      | _ \<Rightarrow> (Inl AttributeError, h))"

text \<open>\<open>==\<close> on the two strings that \<open>lower\<close> returned.\<close>

definition str_eq :: "addr \<Rightarrow> addr \<Rightarrow> heap \<Rightarrow> bool" where
  "str_eq a b h =
     (case deref h a of
        Some (Value (PStr x)) \<Rightarrow>
          (case deref h b of Some (Value (PStr y)) \<Rightarrow> x = y | _ \<Rightarrow> False)
      | _ \<Rightarrow> False)"

text \<open>The test of line 47, left to right: \<open>planet.name\<close>, its \<open>lower()\<close>, the query's
  \<open>lower()\<close>, the comparison.\<close>

definition name_test :: "addr \<Rightarrow> addr \<Rightarrow> heap \<Rightarrow> bool outcome \<times> heap" where
  "name_test planet query h =
     (case getattr_name planet h of
        Inl e \<Rightarrow> (Inl e, h)
      | Inr n \<Rightarrow>
         (case lower_method n h of
            (Inl e, h1) \<Rightarrow> (Inl e, h1)
          | (Inr a, h1) \<Rightarrow>
             (case lower_method query h1 of
                (Inl e, h2) \<Rightarrow> (Inl e, h2)
              | (Inr b, h2) \<Rightarrow> (Inr (str_eq a b h2), h2))))"

text \<open>The loop of lines 46 to 49 from position \<open>i\<close> of the list. As the list iterator
  does, every round reads the list as the store then holds it; the loop ends because
  the rounds leave the list as it is (the termination proof below).\<close>

function get_planet_by_name_from :: "nat \<Rightarrow> addr \<Rightarrow> addr \<Rightarrow> heap \<Rightarrow> addr option outcome \<times> heap" where
  "get_planet_by_name_from i self query h =
     (case getattr_planets self h of
        Inl e \<Rightarrow> (Inl e, h)
      | Inr refs \<Rightarrow>
          if i < length refs
          then (case name_test (refs ! i) query h of
                  (Inl e, h1) \<Rightarrow> (Inl e, h1)
                | (Inr True, h1) \<Rightarrow> (Inr (Some (refs ! i)), h1)
                | (Inr False, h1) \<Rightarrow> get_planet_by_name_from (Suc i) self query h1)
          else (Inr None, h))"
  by pat_completeness auto

definition get_planet_by_name_obj :: "addr \<Rightarrow> addr \<Rightarrow> heap \<Rightarrow> addr option outcome \<times> heap" where
  "get_planet_by_name_obj self query h = get_planet_by_name_from 0 self query h"

section \<open>\<open>class SolarSystemApp\<close> and the main program\<close>

text \<open>\<open>SolarSystemApp.__init__\<close> creates the \<open>SolarSystem\<close> and loads \<open>planets.json\<close>; the
  widgets it then builds hold no data. Nothing around the call of \<open>load_data\<close> catches an
  exception.\<close>

definition SolarSystemApp_init :: "string \<Rightarrow> (string \<Rightarrow> source) \<Rightarrow> unit outcome \<times> world" where
  "SolarSystemApp_init base_dir fs = load_data base_dir fs ''planets.json'' (SolarSystem_init [])"

text \<open>The main program: an exception of the constructor ends the process before
  \<open>root.mainloop()\<close>; otherwise the event loop runs on the loaded state.\<close>

datatype process = Crashed error world | Mainloop world

definition main :: "string \<Rightarrow> (string \<Rightarrow> source) \<Rightarrow> process" where
  "main base_dir fs =
     (case SolarSystemApp_init base_dir fs of
        (Inl e, w) \<Rightarrow> Crashed e w
      | (Inr _, w) \<Rightarrow> Mainloop w)"

text \<open>The button handlers; \<open>entry\<close> is the text of the entry field. A \<open>Planet\<close> object is
  always true, \<open>None\<close> is false.\<close>

definition show_details :: "(pyval \<Rightarrow> string) \<Rightarrow> string \<Rightarrow> world \<Rightarrow> unit outcome \<times> world" where
  "show_details builtin_str entry w =
     (case get_planet_by_name entry w of
        (Inl e, w1) \<Rightarrow> (Inl e, w1)
      | (Inr None, w1) \<Rightarrow> (Inr (), showerror ''Error'' ''Planet not found.'' w1)
      | (Inr (Some p), w1) \<Rightarrow>
          (case Planet_str builtin_str p of
             Inl e \<Rightarrow> (Inl e, w1)
           | Inr s \<Rightarrow> (Inr (), showinfo ''Planet Details'' s w1)))"

definition get_moons :: "(pyval \<Rightarrow> string) \<Rightarrow> string \<Rightarrow> world \<Rightarrow> unit outcome \<times> world" where
  "get_moons builtin_str entry w =
     (case get_planet_by_name entry w of
        (Inl e, w1) \<Rightarrow> (Inl e, w1)
      | (Inr None, w1) \<Rightarrow> (Inr (), showerror ''Error'' ''Planet not found.'' w1)
      | (Inr (Some p), w1) \<Rightarrow>
          (case py_len (moons p) of
             Inl e \<Rightarrow> (Inl e, w1)
           | Inr k \<Rightarrow>
               (Inr (), showinfo ''Moon Count''
                  (py_format builtin_str (name p) @ '' has '' @ show_nat k @ '' moon(s).'') w1)))"

section \<open>Vocabulary of the properties\<close>

text \<open>A record whose stored name is text, as the data model has it.\<close>

definition named_text :: "planet \<Rightarrow> bool" where
  "named_text p = (case name p of PStr _ \<Rightarrow> True | _ \<Rightarrow> False)"

text \<open>The test of line 47: the stored name, lowercased, equals the lowercased query.\<close>

definition name_matches :: "string \<Rightarrow> planet \<Rightarrow> bool" where
  "name_matches query p = (py_lower (name p) = Inr (str_lower query))"

definition required_keys :: "string list" where
  "required_keys = [''name'', ''mass'', ''distance_from_sun'', ''moons'']"

definition is_object :: "pyval \<Rightarrow> bool" where
  "is_object d = (case d of PDict _ \<Rightarrow> True | _ \<Rightarrow> False)"

text \<open>The first required key an element lacks, in the order the loader reads them.\<close>

definition missing_key :: "pyval \<Rightarrow> string option" where
  "missing_key d =
     (case d of
        PDict kvs \<Rightarrow> find (\<lambda>k. map_of kvs k = None) required_keys
      | _ \<Rightarrow> None)"

text \<open>A well-formed array element: an object that has the four required keys.\<close>

definition well_formed :: "pyval \<Rightarrow> bool" where
  "well_formed d = (is_object d \<and> missing_key d = None)"

text \<open>A store without dangling references: every address an object holds is in the store.\<close>

definition refs_of :: "obj \<Rightarrow> addr list" where
  "refs_of ob =
     (case ob of
        Value _ \<Rightarrow> []
      | PlanetObj n m d ms \<Rightarrow> [n, m, d, ms]
      | SolarSystemObj refs \<Rightarrow> refs)"

definition closed :: "heap \<Rightarrow> bool" where
  "closed h = list_all (\<lambda>ob. list_all (\<lambda>a. a < length h) (refs_of ob)) h"

text \<open>The value an address holds, and the record a \<open>Planet\<close> object stands for: the
  \<open>planet\<close> of the sections before, made of the values of its four attributes.\<close>

definition value_at :: "heap \<Rightarrow> addr \<Rightarrow> pyval option" where
  "value_at h a = (case deref h a of Some (Value v) \<Rightarrow> Some v | _ \<Rightarrow> None)"

definition planet_at :: "heap \<Rightarrow> addr \<Rightarrow> planet option" where
  "planet_at h p =
     (case deref h p of
        Some (PlanetObj n m d ms) \<Rightarrow>
          (case value_at h n of
             None \<Rightarrow> None
           | Some vn \<Rightarrow>
              (case value_at h m of
                 None \<Rightarrow> None
               | Some vm \<Rightarrow>
                  (case value_at h d of
                     None \<Rightarrow> None
                   | Some vd \<Rightarrow>
                      (case value_at h ms of
                         None \<Rightarrow> None
                       | Some vms \<Rightarrow> Some (Planet vn vm vd vms)))))
      | _ \<Rightarrow> None)"

text \<open>A code point without a case partner in the range: it is neither one of the
  upper-case letters nor the lower-case form of one. Digits, punctuation, symbols and
  white space are such.\<close>

definition uncased :: "char \<Rightarrow> bool" where
  "uncased c =
     (let n = (of_char c :: nat)
      in \<not> ((65 \<le> n \<and> n \<le> 90) \<or> (97 \<le> n \<and> n \<le> 122)
           \<or> (192 \<le> n \<and> n \<le> 214) \<or> (216 \<le> n \<and> n \<le> 222)
           \<or> (224 \<le> n \<and> n \<le> 246) \<or> (248 \<le> n \<and> n \<le> 254)))"

subsection \<open>The data of the test suite\<close>

definition Earth :: planet where
  "Earth = Planet (PStr ''Earth'') (PStr ''5.97237e24'') (PStr ''149600000'') (PList [PStr ''Moon''])"

definition Mars :: planet where
  "Mars = Planet (PStr ''Mars'') (PStr ''6.4171e23'') (PStr ''227900000'')
            (PList [PStr ''Phobos'', PStr ''Deimos''])"

definition Jupiter :: planet where
  "Jupiter = Planet (PStr ''Jupiter'') (PStr ''1.8982e27'') (PStr ''778500000'')
               (PList [PStr ''Io'', PStr ''Europa''])"

definition Mercury :: planet where
  "Mercury = Planet (PStr ''Mercury'') (PStr ''3.3011e23'') (PStr ''57910000'') (PList [])"

definition planet_data_of :: "planet \<Rightarrow> pyval" where
  "planet_data_of p =
     PDict [(''name'', name p), (''mass'', mass p),
            (''distance_from_sun'', distance_from_sun p), (''moons'', moons p)]"

definition mock_data :: "pyval list" where
  "mock_data = map planet_data_of [Earth, Mars, Jupiter, Mercury]"

text \<open>A store that holds the first two records of the test data, the \<open>SolarSystem\<close> with
  both in its list (address 10), and the query \<open>MARS\<close> (address 11).\<close>

definition mock_heap :: heap where
  "mock_heap =
     [Value (name Earth), Value (mass Earth), Value (distance_from_sun Earth), Value (moons Earth),
      PlanetObj 0 1 2 3,
      Value (name Mars), Value (mass Mars), Value (distance_from_sun Mars), Value (moons Mars),
      PlanetObj 5 6 7 8,
      SolarSystemObj [4, 9],
      Value (PStr ''MARS'')]"

text \<open>A file system that holds one file: every other path is missing.\<close>

definition single_file :: "string \<Rightarrow> source \<Rightarrow> string \<Rightarrow> source" where
  "single_file path src p = (if p = path then src else Missing)"

section \<open>Evaluation on concrete data\<close>

lemma char_eq_char_of: "(c = char_of (n::nat)) = (take_bit 8 n = of_char c)"
  by (metis char_of_eq_iff)

lemmas data_defs = Earth_def Mars_def Jupiter_def Mercury_def Planet_def
lemmas lower_defs = str_lower_def lower_char_def char_of_eq_iff char_eq_char_of
lemmas match_defs = named_text_def name_matches_def py_lower_def

section \<open>Lower-casing\<close>

lemma str_lower_length: "length (str_lower s) = length s"
  by (simp add: str_lower_def)

lemma lower_earth:
  "str_lower ''earth'' = ''earth''" "str_lower ''EARTH'' = ''earth''"
  "str_lower ''Earth'' = ''earth''"
  by (simp_all add: lower_defs)

text \<open>Only an uncased code point itself is lower-cased onto that code point.\<close>

lemma lower_char_uncased:
  assumes "uncased d"
  shows "(lower_char c = lower_char d) = (c = d)"
proof -
  have d: "lower_char d = d"
    using assms by (auto simp: uncased_def lower_char_def Let_def)
  have "c = d" if "lower_char c = d"
  proof (cases "lower_char c = c")
    case True
    with that show ?thesis by simp
  next
    case False
    then have up: "(65 \<le> (of_char c :: nat) \<and> (of_char c :: nat) \<le> 90)
        \<or> (192 \<le> (of_char c :: nat) \<and> (of_char c :: nat) \<le> 214)
        \<or> (216 \<le> (of_char c :: nat) \<and> (of_char c :: nat) \<le> 222)"
      by (auto simp: lower_char_def Let_def split: if_splits)
    then have "lower_char c = char_of ((of_char c :: nat) + 32)"
      by (auto simp: lower_char_def Let_def)
    with that have "(of_char d :: nat) = ((of_char c :: nat) + 32) mod 256"
      by (metis of_char_of)
    with up have "(of_char d :: nat) = (of_char c :: nat) + 32" by auto
    with up assms show ?thesis by (auto simp: uncased_def Let_def)
  qed
  with d show ?thesis by auto
qed

lemma str_lower_uncased:
  "list_all uncased q \<Longrightarrow> (str_lower n = str_lower q) = (n = q)"
proof (induction q arbitrary: n)
  case Nil
  then show ?case by (simp add: str_lower_def)
next
  case (Cons d q)
  then show ?case
    by (cases n) (auto simp: str_lower_def lower_char_uncased)
qed

section \<open>Lookup by name\<close>

text \<open>On a catalog whose names are text the loop is \<open>find\<close> with the test of line 47.\<close>

lemma loop_find:
  "list_all named_text ps \<Longrightarrow> get_planet_by_name_loop ps q = Inr (find (name_matches q) ps)"
  by (induction ps) (auto simp: match_defs split: pyval.splits)

lemma find_matches_name: "find (name_matches q) ps = Some r \<Longrightarrow> name_matches q r \<and> r \<in> set ps"
  by (induction ps) (auto split: if_splits)

lemma named_Earth_matches:
  assumes "name p = PStr ''Earth''" "q = ''earth'' \<or> q = ''EARTH'' \<or> q = ''Earth''"
  shows "name_matches q p"
  using assms by (auto simp: name_matches_def py_lower_def lower_earth)

text \<open>
  Claim C1, as stated: for every catalog, querying \<open>earth\<close>, \<open>EARTH\<close> or \<open>Earth\<close>
  against a catalog containing a record named \<open>Earth\<close> returns that record.
  It fails when an earlier record has the same name up to case: in the catalog of a
  record named \<open>EARTH\<close> followed by the record \<open>Earth\<close> of the test data, the query
  \<open>earth\<close> returns the record named \<open>EARTH\<close>, which is not the record named \<open>Earth\<close>.
\<close>

theorem earlier_record_shadows_Earth:
  "name Earth = PStr ''Earth''
   \<and> Earth \<in> set [Planet (PStr ''EARTH'') (PStr ''0'') (PStr ''0'') (PList []), Earth]
   \<and> get_planet_by_name ''earth''
        \<lparr>planets = [Planet (PStr ''EARTH'') (PStr ''0'') (PStr ''0'') (PList []), Earth],
         dialogs = []\<rparr>
      = (Inr (Some (Planet (PStr ''EARTH'') (PStr ''0'') (PStr ''0'') (PList []))),
         \<lparr>planets = [Planet (PStr ''EARTH'') (PStr ''0'') (PStr ''0'') (PList []), Earth],
          dialogs = []\<rparr>)
   \<and> Planet (PStr ''EARTH'') (PStr ''0'') (PStr ''0'') (PList []) \<noteq> Earth"
  by (simp add: get_planet_by_name_def data_defs match_defs lower_defs)

text \<open>
  Claim C1, amended: for every catalog whose names are text and every query string,
  \<open>get_planet_by_name\<close> compares the lower-cased query with each lower-cased stored name
  in catalog order and returns the first record for which they are equal, leaving the
  state as it was. So querying \<open>earth\<close>, \<open>EARTH\<close> or \<open>Earth\<close> against a catalog
  containing a record \<open>p\<close> named \<open>Earth\<close> returns the first record whose name is
  \<open>Earth\<close> up to case; that record is \<open>p\<close> when no record before \<open>p\<close> has such a name.
\<close>

theorem lookup_lowercases_both:
  assumes "list_all named_text (planets w)"
  shows "get_planet_by_name q w = (Inr (find (name_matches q) (planets w)), w)
       \<and> (\<forall>p. name_matches q p \<longleftrightarrow> (\<exists>n. name p = PStr n \<and> str_lower n = str_lower q))
       \<and> (q = ''earth'' \<or> q = ''EARTH'' \<or> q = ''Earth'' \<longrightarrow>
            planets w = pre @ p # post \<longrightarrow> name p = PStr ''Earth'' \<longrightarrow>
              (\<exists>r. get_planet_by_name q w = (Inr (Some r), w) \<and> name_matches ''Earth'' r
                  \<and> (\<not> list_ex (name_matches ''Earth'') pre \<longrightarrow> r = p)))"
proof (intro conjI impI allI)
  show g: "get_planet_by_name q w = (Inr (find (name_matches q) (planets w)), w)"
    using assms by (simp add: get_planet_by_name_def loop_find)
  show "name_matches q p \<longleftrightarrow> (\<exists>n. name p = PStr n \<and> str_lower n = str_lower q)" for p
    by (auto simp: name_matches_def py_lower_def split: pyval.splits)
  assume q: "q = ''earth'' \<or> q = ''EARTH'' \<or> q = ''Earth''"
    and ps: "planets w = pre @ p # post" and np: "name p = PStr ''Earth''"
  have same: "name_matches q = name_matches ''Earth''"
    using q by (auto simp: name_matches_def lower_earth fun_eq_iff)
  have mp: "name_matches ''Earth'' p"
    using np by (simp add: named_Earth_matches)
  have "list_ex (name_matches ''Earth'') (planets w)"
    using ps mp by (simp add: list_ex_iff)
  then obtain r where r: "find (name_matches ''Earth'') (planets w) = Some r"
    by (cases "find (name_matches ''Earth'') (planets w)") (auto simp: find_None_iff list_ex_iff)
  have first: "r = p" if "\<not> list_ex (name_matches ''Earth'') pre"
  proof -
    have "find (name_matches ''Earth'') (pre @ p # post) = Some p"
      using that mp by (induction pre) auto
    with r ps show ?thesis by simp
  qed
  show "\<exists>r. get_planet_by_name q w = (Inr (Some r), w) \<and> name_matches ''Earth'' r
            \<and> (\<not> list_ex (name_matches ''Earth'') pre \<longrightarrow> r = p)"
    using g r same first find_matches_name[OF r] by auto
qed

theorem lookup_lowercases_both_witness:
  "list_all named_text [Mars, Earth, Jupiter]
   \<and> get_planet_by_name ''earth'' \<lparr>planets = [Mars, Earth, Jupiter], dialogs = []\<rparr>
       = (Inr (Some Earth), \<lparr>planets = [Mars, Earth, Jupiter], dialogs = []\<rparr>)
   \<and> get_planet_by_name ''EARTH'' \<lparr>planets = [Mars, Earth, Jupiter], dialogs = []\<rparr>
       = (Inr (Some Earth), \<lparr>planets = [Mars, Earth, Jupiter], dialogs = []\<rparr>)
   \<and> get_planet_by_name ''Earth'' \<lparr>planets = [Mars, Earth, Jupiter], dialogs = []\<rparr>
       = (Inr (Some Earth), \<lparr>planets = [Mars, Earth, Jupiter], dialogs = []\<rparr>)"
  using lookup_lowercases_both
          [of "\<lparr>planets = [Mars, Earth, Jupiter], dialogs = []\<rparr>" "''earth''" "[Mars]" Earth "[Jupiter]"]
        lookup_lowercases_both
          [of "\<lparr>planets = [Mars, Earth, Jupiter], dialogs = []\<rparr>" "''EARTH''" "[Mars]" Earth "[Jupiter]"]
        lookup_lowercases_both
          [of "\<lparr>planets = [Mars, Earth, Jupiter], dialogs = []\<rparr>" "''Earth''" "[Mars]" Earth "[Jupiter]"]
  by (simp add: data_defs match_defs lower_defs)

text \<open>
  Claim C4: in a catalog whose names are text, let the records at positions \<open>i < j\<close>
  both match the query up to case. Then \<open>get_planet_by_name\<close> returns the record at the
  least matching position \<open>k\<close>, and \<open>k \<le> i\<close>: the first match in scan order wins and
  the later duplicate at \<open>j\<close> is not the one returned. The catalog comes back as it was,
  with every duplicate still in it.
\<close>

theorem first_match_wins:
  assumes "list_all named_text (planets w)"
    and "i < j" and "j < length (planets w)"
    and "name_matches q (planets w ! i)" and "name_matches q (planets w ! j)"
  shows "\<exists>k\<le>i. get_planet_by_name q w = (Inr (Some (planets w ! k)), w)
              \<and> name_matches q (planets w ! k)
              \<and> (\<forall>m<k. \<not> name_matches q (planets w ! m))"
proof -
  have i: "i < length (planets w)" using assms by simp
  then have "planets w ! i \<in> set (planets w)" by simp
  with assms(4) have "find (name_matches q) (planets w) \<noteq> None"
    by (auto simp: find_None_iff)
  then obtain r where r: "find (name_matches q) (planets w) = Some r" by blast
  then obtain k where k: "k < length (planets w)" "name_matches q (planets w ! k)"
      "r = planets w ! k" "\<forall>m<k. \<not> name_matches q (planets w ! m)"
    unfolding find_Some_iff by blast
  have "k \<le> i" using k(4) assms(4) by (meson not_le)
  moreover have "get_planet_by_name q w = (Inr (Some (planets w ! k)), w)"
    using assms(1) r k(3) by (simp add: get_planet_by_name_def loop_find)
  ultimately show ?thesis using k by blast
qed

theorem first_match_wins_witness:
  "list_all named_text [Jupiter, Mars, Earth, Mars\<lparr>name := PStr ''MARS'', moons := PList []\<rparr>]
   \<and> name_matches ''mArs'' Mars
   \<and> name_matches ''mArs'' (Mars\<lparr>name := PStr ''MARS'', moons := PList []\<rparr>)
   \<and> get_planet_by_name ''mArs''
        \<lparr>planets = [Jupiter, Mars, Earth, Mars\<lparr>name := PStr ''MARS'', moons := PList []\<rparr>],
         dialogs = []\<rparr>
      = (Inr (Some Mars),
         \<lparr>planets = [Jupiter, Mars, Earth, Mars\<lparr>name := PStr ''MARS'', moons := PList []\<rparr>],
          dialogs = []\<rparr>)"
  using first_match_wins
          [of "\<lparr>planets = [Jupiter, Mars, Earth, Mars\<lparr>name := PStr ''MARS'', moons := PList []\<rparr>],
               dialogs = []\<rparr>" 1 3 "''mArs''"]
  by (simp add: get_planet_by_name_def data_defs match_defs lower_defs)

text \<open>
  Claim C6: on a catalog whose names are text, a query is not found exactly when no
  stored name equals it up to case; nothing is special-cased. The empty query matches
  only a record named the empty string. A query without letters (digits, symbols) matches
  only a record whose name is literally that string. White space is not trimmed: the name
  of a record with white space (or any other text) added in front, inside or behind does
  not match that record.
\<close>

theorem not_found_unless_equal_up_to_case:
  assumes "list_all named_text (planets w)"
  shows "(get_planet_by_name q w = (Inr None, w)) = (\<not> list_ex (name_matches q) (planets w))
       \<and> (name_matches [] p = (name p = PStr []))
       \<and> (list_all uncased q \<longrightarrow> name_matches q p = (name p = PStr q))
       \<and> (name p = PStr (a @ b) \<longrightarrow> pad \<noteq> [] \<longrightarrow> \<not> name_matches (a @ pad @ b) p)"
proof (intro conjI impI)
  show "(get_planet_by_name q w = (Inr None, w)) = (\<not> list_ex (name_matches q) (planets w))"
    using assms by (auto simp: get_planet_by_name_def loop_find find_None_iff list_ex_iff)
  show "name_matches [] p = (name p = PStr [])"
    by (auto simp: name_matches_def py_lower_def str_lower_def split: pyval.splits)
  show "name_matches q p = (name p = PStr q)" if "list_all uncased q"
    using str_lower_uncased[OF that]
    by (auto simp: name_matches_def py_lower_def split: pyval.splits)
  show "\<not> name_matches (a @ pad @ b) p" if "name p = PStr (a @ b)" "pad \<noteq> []"
  proof
    assume "name_matches (a @ pad @ b) p"
    with that have "str_lower (a @ b) = str_lower (a @ pad @ b)"
      by (simp add: name_matches_def py_lower_def)
    then have "length (str_lower (a @ b)) = length (str_lower (a @ pad @ b))" by simp
    with that show False by (simp add: str_lower_length)
  qed
qed

theorem not_found_unless_equal_up_to_case_witness:
  "list_all named_text [Earth, Mars, Jupiter, Mercury]
   \<and> get_planet_by_name '''' \<lparr>planets = [Earth, Mars, Jupiter, Mercury], dialogs = []\<rparr>
       = (Inr None, \<lparr>planets = [Earth, Mars, Jupiter, Mercury], dialogs = []\<rparr>)
   \<and> get_planet_by_name ''123'' \<lparr>planets = [Earth, Mars, Jupiter, Mercury], dialogs = []\<rparr>
       = (Inr None, \<lparr>planets = [Earth, Mars, Jupiter, Mercury], dialogs = []\<rparr>)
   \<and> list_all uncased ''123'' \<and> \<not> name_matches ''123'' Earth
   \<and> name Earth = PStr (''Earth'' @ '''') \<and> '' '' \<noteq> ''''
   \<and> \<not> name_matches (''Earth'' @ '' '' @ '''') Earth"
  using not_found_unless_equal_up_to_case
          [of "\<lparr>planets = [Earth, Mars, Jupiter, Mercury], dialogs = []\<rparr>" "''''"
              Earth "''Earth''" "''''" "'' ''"]
        not_found_unless_equal_up_to_case
          [of "\<lparr>planets = [Earth, Mars, Jupiter, Mercury], dialogs = []\<rparr>" "''123''"
              Earth "''Earth''" "''''" "'' ''"]
  by (simp add: data_defs match_defs lower_defs uncased_def)

section \<open>What the lookup does to the objects\<close>

text \<open>Every step of the method only extends the store.\<close>

lemma deref_append: "a < length h \<Longrightarrow> deref (h @ tmp) a = deref h a"
  by (simp add: deref_def nth_append)

lemma lower_method_extends: "\<exists>tmp. snd (lower_method a h) = h @ tmp"
  by (auto simp: lower_method_def alloc_def split: option.splits obj.splits sum.splits)

lemma name_test_extends: "\<exists>tmp. snd (name_test p q h) = h @ tmp"
proof (cases "getattr_name p h")
  case (Inl e)
  then show ?thesis by (simp add: name_test_def)
next
  case (Inr n)
  obtain t1 where t1: "snd (lower_method n h) = h @ t1"
    using lower_method_extends by blast
  obtain t2 where t2: "snd (lower_method q (h @ t1)) = (h @ t1) @ t2"
    using lower_method_extends by blast
  show ?thesis
    using Inr t1 t2
    by (cases "lower_method n h"; cases "lower_method q (h @ t1)")
       (auto simp: name_test_def split: sum.splits)
qed

lemma getattr_planets_append:
  "getattr_planets self h = Inr refs \<Longrightarrow> getattr_planets self (h @ tmp) = Inr refs"
  by (auto simp: getattr_planets_def deref_def nth_append split: option.splits obj.splits if_splits)

termination get_planet_by_name_from
proof (relation "measure (\<lambda>(i, self, query, h).
          (case getattr_planets self h of Inl e \<Rightarrow> 0 | Inr refs \<Rightarrow> length refs - i))")
  show "wf (measure (\<lambda>(i, self, query, h).
          (case getattr_planets self h of Inl e \<Rightarrow> 0 | Inr refs \<Rightarrow> length refs - i)))"
    by simp
next
  fix i self query h refs x1 h1 b
  assume a: "getattr_planets self h = Inr refs" "i < length refs"
    and b: "(x1, h1) = name_test (refs ! i) query h"
  obtain tmp where "snd (name_test (refs ! i) query h) = h @ tmp"
    using name_test_extends by blast
  with b have "h1 = h @ tmp" by (metis snd_conv)
  with a show "((Suc i, self, query, h1), (i, self, query, h))
      \<in> measure (\<lambda>(i, self, query, h).
          (case getattr_planets self h of Inl e \<Rightarrow> 0 | Inr refs \<Rightarrow> length refs - i))"
    by (simp add: getattr_planets_append)
qed

declare get_planet_by_name_from.simps [simp del]

lemma from_extends: "\<exists>tmp. snd (get_planet_by_name_from i self q h) = h @ tmp"
proof (induction i self q h rule: get_planet_by_name_from.induct)
  case (1 i self q h)
  show ?case
  proof (cases "getattr_planets self h")
    case (Inl e)
    then show ?thesis by (simp add: get_planet_by_name_from.simps)
  next
    case (Inr refs)
    show ?thesis
    proof (cases "i < length refs")
      case False
      with Inr show ?thesis by (simp add: get_planet_by_name_from.simps)
    next
      case True
      obtain x h1 where st: "name_test (refs ! i) q h = (x, h1)" by fastforce
      obtain t1 where t1: "h1 = h @ t1"
        using name_test_extends[of "refs ! i" q h] st by auto
      show ?thesis
      proof (cases x)
        case (Inl e)
        with Inr True st t1 show ?thesis
          by (simp add: get_planet_by_name_from.simps)
      next
        case (Inr b)
        show ?thesis
        proof (cases b)
          case True
          with \<open>getattr_planets self h = Inr refs\<close> \<open>i < length refs\<close> st t1 Inr
          show ?thesis by (simp add: get_planet_by_name_from.simps)
        next
          case False
          then have bf: "b = False" by simp
          from "1.IH"[OF \<open>getattr_planets self h = Inr refs\<close> \<open>i < length refs\<close> st[symmetric] Inr bf]
          obtain t2 where "snd (get_planet_by_name_from (Suc i) self q h1) = h1 @ t2" by blast
          with \<open>getattr_planets self h = Inr refs\<close> \<open>i < length refs\<close> st t1 Inr False
          show ?thesis by (simp add: get_planet_by_name_from.simps)
        qed
      qed
    qed
  qed
qed

lemma closed_refs:
  assumes "closed h" "a < length h" "r \<in> set (refs_of (h ! a))"
  shows "r < length h"
  using assms by (auto simp: closed_def list_all_iff)

lemma closed_name:
  assumes "closed h" "getattr_name p h = Inr n"
  shows "n < length h"
proof -
  from assms(2) obtain m d ms where "p < length h" "h ! p = PlanetObj n m d ms"
    by (auto simp: getattr_name_def deref_def split: if_splits obj.splits)
  then show ?thesis using closed_refs[OF assms(1), of p n] by (simp add: refs_of_def)
qed

lemma closed_planet:
  assumes "closed h" "getattr_planets self h = Inr refs" "i < length refs"
  shows "refs ! i < length h"
proof -
  from assms(2) have "self < length h" "h ! self = SolarSystemObj refs"
    by (auto simp: getattr_planets_def deref_def split: if_splits obj.splits)
  then show ?thesis using closed_refs[OF assms(1), of self "refs ! i"] assms(3)
    by (simp add: refs_of_def)
qed

lemma getattr_name_append:
  "p < length h \<Longrightarrow> getattr_name p (h @ tmp) = getattr_name p h"
  by (simp add: getattr_name_def deref_append)

lemma getattr_planets_append':
  "self < length h \<Longrightarrow> getattr_planets self (h @ tmp) = getattr_planets self h"
  by (simp add: getattr_planets_def deref_append)

lemma name_test_stable:
  assumes "closed h" "p < length h" "q < length h"
  shows "fst (name_test p q (h @ tmp)) = fst (name_test p q h)"
proof (cases "getattr_name p h")
  case (Inl e)
  then show ?thesis using assms(2) by (simp add: name_test_def getattr_name_append)
next
  case (Inr n)
  then have n: "n < length h" using assms(1) closed_name by blast
  show ?thesis
    using Inr n assms(2,3)
    by (auto simp: name_test_def getattr_name_append lower_method_def alloc_def deref_def
        str_eq_def nth_append split: obj.splits sum.splits pyval.splits)
qed

lemma from_stable:
  "closed h0 \<Longrightarrow> self < length h0 \<Longrightarrow> q < length h0 \<Longrightarrow> h = h0 @ ea \<Longrightarrow>
   fst (get_planet_by_name_from i self q h) = fst (get_planet_by_name_from i self q (h0 @ eb))"
proof (induction i self q h arbitrary: ea eb rule: get_planet_by_name_from.induct)
  case (1 i self q h)
  note cl = "1.prems"(1) and self = "1.prems"(2) and q = "1.prems"(3) and h = "1.prems"(4)
  have ga: "getattr_planets self h = getattr_planets self h0"
    using h self by (simp add: getattr_planets_append')
  have gb: "getattr_planets self (h0 @ eb) = getattr_planets self h0"
    using self by (simp add: getattr_planets_append')
  show ?case
  proof (cases "getattr_planets self h0")
    case (Inl e)
    with ga gb show ?thesis by (simp add: get_planet_by_name_from.simps)
  next
    case (Inr refs)
    note refs = Inr
    show ?thesis
    proof (cases "i < length refs")
      case False
      with refs ga gb show ?thesis by (simp add: get_planet_by_name_from.simps)
    next
      case True
      note i = True
      have p: "refs ! i < length h0" using closed_planet[OF cl refs i] .
      obtain x h1 where sa: "name_test (refs ! i) q h = (x, h1)" by fastforce
      obtain y h2 where sb: "name_test (refs ! i) q (h0 @ eb) = (y, h2)" by fastforce
      have "x = fst (name_test (refs ! i) q h0)"
        using name_test_stable[OF cl p q, of ea] sa h by simp
      moreover have "y = fst (name_test (refs ! i) q h0)"
        using name_test_stable[OF cl p q, of eb] sb by simp
      ultimately have yx: "y = x" by simp
      have ga': "getattr_planets self h = Inr refs" using ga refs by simp
      have gb': "getattr_planets self (h0 @ eb) = Inr refs" using gb refs by simp
      note sb' = sb[unfolded yx]
      obtain t1 where t1: "h1 = h0 @ (ea @ t1)"
        using name_test_extends[of "refs ! i" q h] sa h by auto
      obtain t2 where t2: "h2 = h0 @ (eb @ t2)"
        using name_test_extends[of "refs ! i" q "h0 @ eb"] sb by auto
      show ?thesis
      proof (cases x)
        case (Inl e)
        with ga' gb' i sa sb' show ?thesis
          by (simp add: get_planet_by_name_from.simps)
      next
        case (Inr b)
        show ?thesis
        proof (cases b)
          case True
          with Inr ga' gb' i sa sb' show ?thesis
            by (simp add: get_planet_by_name_from.simps)
        next
          case False
          then have bf: "b = False" by simp
          have "fst (get_planet_by_name_from (Suc i) self q h1)
                  = fst (get_planet_by_name_from (Suc i) self q (h0 @ (eb @ t2)))"
            using "1.IH"[OF ga' i sa[symmetric] Inr bf cl self q t1] .
          with bf Inr ga' gb' i sa sb' t2 show ?thesis
            by (simp add: get_planet_by_name_from.simps)
        qed
      qed
    qed
  qed
qed

lemma name_test_value:
  assumes "planet_at h p = Some pl" "value_at h q = Some (PStr s)"
  shows "fst (name_test p q h)
           = (case py_lower (name pl) of Inl e \<Rightarrow> Inl e | Inr n \<Rightarrow> Inr (n = str_lower s))"
  using assms
  by (auto simp: planet_at_def value_at_def name_test_def getattr_name_def lower_method_def
      alloc_def deref_def str_eq_def nth_append Planet_def py_lower_def
      split: option.splits obj.splits pyval.splits sum.splits if_splits)

lemma value_at_closed: "value_at h a = Some v \<Longrightarrow> a < length h"
  by (auto simp: value_at_def deref_def split: if_splits)

lemma from_refines:
  "closed h0 \<Longrightarrow> getattr_planets self h0 = Inr refs \<Longrightarrow> map (planet_at h0) refs = map Some ps \<Longrightarrow>
   value_at h0 q = Some (PStr s) \<Longrightarrow> i \<le> length refs \<Longrightarrow>
   get_planet_by_name_loop (drop i ps) s
     = (case fst (get_planet_by_name_from i self q h0) of
          Inl e \<Rightarrow> Inl e
        | Inr None \<Rightarrow> Inr None
        | Inr (Some r) \<Rightarrow> Inr (planet_at h0 r))"
proof (induction "length refs - i" arbitrary: i)
  case 0
  then have "i = length refs" by simp
  moreover have "length ps = length refs" using "0.prems"(3) by (metis length_map)
  ultimately show ?case
    using "0.prems"(2) by (simp add: get_planet_by_name_from.simps)
next
  case (Suc k)
  then have i: "i < length refs" by simp
  have len: "length ps = length refs" using Suc.prems(3) by (metis length_map)
  have self: "self < length h0"
    using Suc.prems(2) by (auto simp: getattr_planets_def deref_def split: if_splits)
  have q: "q < length h0" using Suc.prems(4) by (rule value_at_closed)
  have p: "refs ! i < length h0" using closed_planet[OF Suc.prems(1,2) i] .
  have pl: "planet_at h0 (refs ! i) = Some (ps ! i)"
  proof -
    have "map (planet_at h0) refs ! i = map Some ps ! i" using Suc.prems(3) by simp
    then show ?thesis using i len by simp
  qed
  have dr: "drop i ps = ps ! i # drop (Suc i) ps"
    using i len by (simp add: Cons_nth_drop_Suc)
  obtain x h1 where st: "name_test (refs ! i) q h0 = (x, h1)" by fastforce
  have x: "x = (case py_lower (name (ps ! i)) of Inl e \<Rightarrow> Inl e | Inr n \<Rightarrow> Inr (n = str_lower s))"
    using name_test_value[OF pl Suc.prems(4)] st by simp
  obtain t where t: "h1 = h0 @ t" using name_test_extends[of "refs ! i" q h0] st by auto
  have rest: "get_planet_by_name_loop (drop (Suc i) ps) s
     = (case fst (get_planet_by_name_from (Suc i) self q h0) of
          Inl e \<Rightarrow> Inl e
        | Inr None \<Rightarrow> Inr None
        | Inr (Some r) \<Rightarrow> Inr (planet_at h0 r))"
    using Suc.hyps(1)[of "Suc i"] Suc.hyps(2) Suc.prems i by simp
  have same: "fst (get_planet_by_name_from (Suc i) self q h1)
                = fst (get_planet_by_name_from (Suc i) self q h0)"
    using from_stable[OF Suc.prems(1) self q, of h1 t "Suc i" "[]"] t by simp
  show ?case
  proof (cases "py_lower (name (ps ! i))")
    case (Inl e)
    with x st Suc.prems(2) i dr show ?thesis
      by (simp add: get_planet_by_name_from.simps)
  next
    case (Inr n)
    show ?thesis
    proof (cases "n = str_lower s")
      case True
      with Inr x st Suc.prems(2) i dr pl show ?thesis
        by (simp add: get_planet_by_name_from.simps)
    next
      case False
      with Inr x st Suc.prems(2) i dr rest same show ?thesis
        by (simp add: get_planet_by_name_from.simps)
    qed
  qed
qed

lemma mock_heap_closed: "closed mock_heap"
  by (simp add: closed_def mock_heap_def refs_of_def)

text \<open>
  Claim C8: in a store without dangling references, a call of \<open>get_planet_by_name\<close> on
  a \<open>SolarSystem\<close> and a query changes no object that existed before it: the store
  afterwards is the store before, followed by what the call allocated. So every record,
  the list and the query string are as they were. A second
  call with the same arguments, made in the store the first call left, returns the same
  result as the first; so does a call in any store that holds further objects. The
  result is a function of the catalog and the query alone: when the list holds
  \<open>Planet\<close> objects that stand for the records \<open>ps\<close> and the query holds the text \<open>s\<close>,
  the object returned stands for the record that \<open>get_planet_by_name_loop ps s\<close> returns.
\<close>

theorem lookup_leaves_objects_unchanged:
  assumes "closed h" and "self < length h" and "query < length h"
  shows "(\<exists>tmp. snd (get_planet_by_name_obj self query h) = h @ tmp)
       \<and> (\<forall>a<length h. deref (snd (get_planet_by_name_obj self query h)) a = deref h a)
       \<and> deref (snd (get_planet_by_name_obj self query h)) query = deref h query
       \<and> fst (get_planet_by_name_obj self query (snd (get_planet_by_name_obj self query h)))
           = fst (get_planet_by_name_obj self query h)
       \<and> fst (get_planet_by_name_obj self query (h @ later))
           = fst (get_planet_by_name_obj self query h)
       \<and> (getattr_planets self h = Inr refs \<longrightarrow> map (planet_at h) refs = map Some ps \<longrightarrow>
            value_at h query = Some (PStr s) \<longrightarrow>
              get_planet_by_name_loop ps s
                = (case fst (get_planet_by_name_obj self query h) of
                     Inl e \<Rightarrow> Inl e
                   | Inr None \<Rightarrow> Inr None
                   | Inr (Some r) \<Rightarrow> Inr (planet_at h r)))"
proof -
  obtain tmp where tmp: "snd (get_planet_by_name_obj self query h) = h @ tmp"
    using from_extends[of 0 self query h] by (auto simp: get_planet_by_name_obj_def)
  have frame: "deref (snd (get_planet_by_name_obj self query h)) a = deref h a"
    if "a < length h" for a
    using that by (simp add: tmp deref_append)
  have stable: "fst (get_planet_by_name_obj self query (h @ e))
                  = fst (get_planet_by_name_obj self query h)" for e
    using from_stable[OF assms, of "h @ e" e 0 "[]"]
    by (simp add: get_planet_by_name_obj_def)
  have refines: "get_planet_by_name_loop ps s
                = (case fst (get_planet_by_name_obj self query h) of
                     Inl e \<Rightarrow> Inl e
                   | Inr None \<Rightarrow> Inr None
                   | Inr (Some r) \<Rightarrow> Inr (planet_at h r))"
    if "getattr_planets self h = Inr refs" "map (planet_at h) refs = map Some ps"
      "value_at h query = Some (PStr s)"
    using from_refines[OF assms(1) that, of 0] by (simp add: get_planet_by_name_obj_def)
  show ?thesis
    using tmp frame[OF assms(3)] frame stable[of tmp] stable[of later] refines
    by (intro conjI) (auto simp: tmp)
qed

theorem lookup_leaves_objects_unchanged_witness:
  "closed mock_heap \<and> 10 < length mock_heap \<and> 11 < length mock_heap
   \<and> get_planet_by_name_obj 10 11 mock_heap
      = (Inr (Some 9),
         mock_heap @ [Value (PStr ''earth''), Value (PStr ''mars''),
                      Value (PStr ''mars''), Value (PStr ''mars'')])
   \<and> fst (get_planet_by_name_obj 10 11 (snd (get_planet_by_name_obj 10 11 mock_heap)))
      = Inr (Some 9)
   \<and> getattr_planets 10 mock_heap = Inr [4, 9]
   \<and> map (planet_at mock_heap) [4, 9] = map Some [Earth, Mars]
   \<and> value_at mock_heap 11 = Some (PStr ''MARS'')
   \<and> get_planet_by_name_loop [Earth, Mars] ''MARS'' = Inr (Some Mars)"
proof -
  have run: "get_planet_by_name_obj 10 11 mock_heap
      = (Inr (Some 9),
         mock_heap @ [Value (PStr ''earth''), Value (PStr ''mars''),
                      Value (PStr ''mars''), Value (PStr ''mars'')])"
    by (simp add: get_planet_by_name_obj_def get_planet_by_name_from.simps getattr_planets_def
        deref_def mock_heap_def name_test_def getattr_name_def lower_method_def alloc_def
        str_eq_def py_lower_def data_defs lower_defs nth_append)
  have abs: "map (planet_at mock_heap) [4, 9] = map Some [Earth, Mars]"
    by (simp add: planet_at_def value_at_def deref_def mock_heap_def data_defs)
  have q: "value_at mock_heap 11 = Some (PStr ''MARS'')"
    by (simp add: value_at_def deref_def mock_heap_def)
  have refs: "getattr_planets 10 mock_heap = Inr [4, 9]"
    by (simp add: getattr_planets_def deref_def mock_heap_def)
  have len: "10 < length mock_heap" "11 < length mock_heap"
    by (simp_all add: mock_heap_def)
  show ?thesis
    using lookup_leaves_objects_unchanged
            [OF mock_heap_closed len, of "[]" "[4, 9]" "[Earth, Mars]" "''MARS''"]
      run abs q refs len mock_heap_closed
    by (simp add: planet_at_def value_at_def deref_def mock_heap_def data_defs)
qed

section \<open>Loading\<close>

lemma make_planet_data_of: "make_planet (planet_data_of p) = Inr p"
  by (simp add: make_planet_def planet_data_of_def py_getitem_def Planet_def)

text \<open>A record is built from the four values under the required keys, unchanged.\<close>

lemma make_planet_fields:
  assumes "make_planet d = Inr p"
  shows "py_getitem d ''name'' = Inr (name p) \<and> py_getitem d ''mass'' = Inr (mass p)
       \<and> py_getitem d ''distance_from_sun'' = Inr (distance_from_sun p)
       \<and> py_getitem d ''moons'' = Inr (moons p)"
  using assms by (auto simp: make_planet_def Planet_def split: sum.splits)

lemma make_planet_well_formed: "well_formed d \<Longrightarrow> \<exists>p. make_planet d = Inr p"
  by (auto simp: well_formed_def is_object_def missing_key_def required_keys_def
      make_planet_def py_getitem_def split: pyval.splits option.splits if_splits)

lemma make_planet_missing_key:
  "is_object d \<Longrightarrow> missing_key d = Some k \<Longrightarrow> make_planet d = Inl (KeyError k)"
  by (auto simp: is_object_def missing_key_def required_keys_def
      make_planet_def py_getitem_def split: pyval.splits option.splits if_splits)

lemma well_formed_makes:
  "list_all well_formed elems \<Longrightarrow> \<exists>new. map make_planet elems = map Inr new"
proof (induction elems)
  case Nil
  then show ?case by simp
next
  case (Cons d elems)
  then obtain new where "map make_planet elems = map Inr new" by auto
  moreover obtain p where "make_planet d = Inr p"
    using Cons.prems make_planet_well_formed by auto
  ultimately have "map make_planet (d # elems) = map Inr (p # new)" by simp
  then show ?case by blast
qed

text \<open>The loop appends one record per element, in order, to whatever the list held.\<close>

lemma loop_ok:
  "map make_planet elems = map Inr new \<Longrightarrow>
   load_data_loop elems self = (Inr (), self\<lparr>planets := planets self @ new\<rparr>)"
  by (induction elems arbitrary: new self) auto

text \<open>An element that cannot be built stops the loop; what was appended stays.\<close>

lemma loop_fail:
  "map make_planet good = map Inr new \<Longrightarrow> make_planet bad = Inl e \<Longrightarrow>
   load_data_loop (good @ bad # rest) self = (Inl e, self\<lparr>planets := planets self @ new\<rparr>)"
  by (induction good arbitrary: new self) auto

text \<open>Building a record raises nothing but \<open>TypeError\<close> or \<open>KeyError\<close> for a required
  key, so \<open>FileNotFoundError\<close>, which \<open>load_data\<close> catches, never leaves it.\<close>

lemma make_planet_errors:
  "make_planet d = Inl e \<Longrightarrow> e = TypeError \<or> (\<exists>k \<in> set required_keys. e = KeyError k)"
  by (auto simp: make_planet_def py_getitem_def required_keys_def
      split: pyval.splits option.splits sum.splits)

lemma loop_errors:
  "fst (load_data_loop elems self) = Inl e \<Longrightarrow>
   e = TypeError \<or> (\<exists>k \<in> set required_keys. e = KeyError k)"
proof (induction elems arbitrary: self)
  case Nil
  then show ?case by simp
next
  case (Cons d elems)
  then show ?case
    by (cases "make_planet d") (auto dest: make_planet_errors)
qed

lemma load_data_never_raises_not_found:
  assumes "fst (load_data base_dir fs file_path self) = Inl e"
  shows "e \<noteq> FileNotFoundError"
proof (cases "fs (os_path_join base_dir file_path)")
  case (Parsed data)
  show ?thesis
  proof (cases "py_iter data")
    case (Inl x)
    then have "x = TypeError" by (auto simp: py_iter_def split: pyval.splits)
    with assms Parsed Inl show ?thesis by (simp add: load_data_def)
  next
    case (Inr items)
    with assms Parsed have "fst (load_data_loop items self) = Inl e"
      by (simp add: load_data_def)
    from loop_errors[OF this] show ?thesis by auto
  qed
qed (use assms in \<open>auto simp: load_data_def\<close>)

lemma made_nth:
  assumes "map make_planet elems = map Inr new" "i < length elems"
  shows "make_planet (elems ! i) = Inr (new ! i)"
proof -
  have "map make_planet elems ! i = map Inr new ! i" using assms by simp
  moreover have "length new = length elems" using assms(1) by (metis length_map)
  ultimately show ?thesis using assms(2) by simp
qed

lemma mock_data_well_formed: "list_all well_formed mock_data"
  by (simp add: mock_data_def planet_data_of_def well_formed_def is_object_def
      missing_key_def required_keys_def)

lemma join_app: "os_path_join ''/app'' ''planets.json'' = ''/app/planets.json''"
  by (simp add: os_path_join_def)

lemma load_mock:
  "load_data_loop mock_data self
     = (Inr (), self\<lparr>planets := planets self @ [Earth, Mars, Jupiter, Mercury]\<rparr>)"
  by (simp add: mock_data_def make_planet_data_of)

lemma missing_key_no_moons:
  "is_object (PDict [(''name'', n), (''mass'', m), (''distance_from_sun'', d)])"
  "missing_key (PDict [(''name'', n), (''mass'', m), (''distance_from_sun'', d)]) = Some ''moons''"
  by (simp_all add: is_object_def missing_key_def required_keys_def)

text \<open>
  Claim C5: when the file holds a JSON array of \<open>N\<close> objects, each with the keys
  \<open>name\<close>, \<open>mass\<close>, \<open>distance_from_sun\<close> and \<open>moons\<close>, loading it returns
  normally, shows no dialog and produces \<open>N\<close> records \<open>ps\<close>, one per array element and
  in the array's order: the record at position \<open>i\<close> holds, field by field, the values of
  the array element at position \<open>i\<close>. A new \<open>SolarSystem\<close> then holds exactly \<open>ps\<close>.
\<close>

theorem load_well_formed_array:
  assumes "fs (os_path_join base_dir file_path) = Parsed (PList elems)"
    and "list_all well_formed elems"
  shows "\<exists>ps. load_data base_dir fs file_path (SolarSystem_init shown)
                = (Inr (), \<lparr>planets = ps, dialogs = shown\<rparr>)
            \<and> (\<forall>self. load_data base_dir fs file_path self
                         = (Inr (), self\<lparr>planets := planets self @ ps\<rparr>))
            \<and> length ps = length elems
            \<and> (\<forall>i<length elems.
                  py_getitem (elems ! i) ''name'' = Inr (name (ps ! i))
                \<and> py_getitem (elems ! i) ''mass'' = Inr (mass (ps ! i))
                \<and> py_getitem (elems ! i) ''distance_from_sun'' = Inr (distance_from_sun (ps ! i))
                \<and> py_getitem (elems ! i) ''moons'' = Inr (moons (ps ! i)))"
proof -
  obtain new where new: "map make_planet elems = map Inr new"
    using well_formed_makes[OF assms(2)] by blast
  have len: "length new = length elems" using new by (metis length_map)
  have run: "load_data base_dir fs file_path self
               = (Inr (), self\<lparr>planets := planets self @ new\<rparr>)" for self
    using assms(1) loop_ok[OF new] by (simp add: load_data_def py_iter_def)
  have "load_data base_dir fs file_path (SolarSystem_init shown)
          = (Inr (), \<lparr>planets = new, dialogs = shown\<rparr>)"
    by (simp add: run SolarSystem_init_def)
  moreover have "py_getitem (elems ! i) ''name'' = Inr (name (new ! i))
                \<and> py_getitem (elems ! i) ''mass'' = Inr (mass (new ! i))
                \<and> py_getitem (elems ! i) ''distance_from_sun'' = Inr (distance_from_sun (new ! i))
                \<and> py_getitem (elems ! i) ''moons'' = Inr (moons (new ! i))"
    if "i < length elems" for i
    using make_planet_fields[OF made_nth[OF new that]] .
  ultimately show ?thesis using len run by blast
qed

theorem load_well_formed_array_witness:
  "single_file ''/app/planets.json'' (Parsed (PList mock_data)) (os_path_join ''/app'' ''planets.json'')
     = Parsed (PList mock_data)
   \<and> list_all well_formed mock_data
   \<and> load_data ''/app'' (single_file ''/app/planets.json'' (Parsed (PList mock_data)))
        ''planets.json'' (SolarSystem_init [])
      = (Inr (), \<lparr>planets = [Earth, Mars, Jupiter, Mercury], dialogs = []\<rparr>)"
  using load_well_formed_array
          [of "single_file ''/app/planets.json'' (Parsed (PList mock_data))" "''/app''"
              "''planets.json''" mock_data "[]"]
  by (simp add: join_app single_file_def mock_data_well_formed load_data_def py_iter_def
      load_mock SolarSystem_init_def)

text \<open>
  Claim C9: \<open>load_data\<close> never clears \<open>self.planets\<close>. Loading a well-formed array of
  \<open>M\<close> elements into a \<open>SolarSystem\<close> that already holds \<open>N\<close> records returns normally
  with the \<open>N\<close> records followed by the \<open>M\<close> new ones, whatever was loaded before; so a
  second load of the same file leaves \<open>N + M + M\<close> records. The loader does not enforce
  that it runs once.
\<close>

theorem second_load_appends:
  assumes "fs (os_path_join base_dir file_path) = Parsed (PList elems)"
    and "list_all well_formed elems"
  shows "\<exists>new. (\<forall>self. load_data base_dir fs file_path self
                         = (Inr (), self\<lparr>planets := planets self @ new\<rparr>))
             \<and> length new = length elems
             \<and> map make_planet elems = map Inr new
             \<and> (\<forall>self. length (planets (snd (load_data base_dir fs file_path
                             (snd (load_data base_dir fs file_path self)))))
                        = length (planets self) + length elems + length elems)"
proof -
  obtain new where new: "map make_planet elems = map Inr new"
    using well_formed_makes[OF assms(2)] by blast
  have len: "length new = length elems" using new by (metis length_map)
  have run: "load_data base_dir fs file_path self = (Inr (), self\<lparr>planets := planets self @ new\<rparr>)"
    for self
    using assms(1) loop_ok[OF new] by (simp add: load_data_def py_iter_def)
  have "length (planets (snd (load_data base_dir fs file_path
                             (snd (load_data base_dir fs file_path self)))))
                        = length (planets self) + length elems + length elems" for self
    by (simp add: run len)
  with run len new show ?thesis by blast
qed

theorem second_load_appends_witness:
  "single_file ''/app/planets.json'' (Parsed (PList mock_data)) (os_path_join ''/app'' ''planets.json'')
     = Parsed (PList mock_data)
   \<and> list_all well_formed mock_data
   \<and> load_data ''/app'' (single_file ''/app/planets.json'' (Parsed (PList mock_data)))
        ''planets.json''
        (snd (load_data ''/app'' (single_file ''/app/planets.json'' (Parsed (PList mock_data)))
                ''planets.json'' (SolarSystem_init [])))
      = (Inr (), \<lparr>planets = [Earth, Mars, Jupiter, Mercury, Earth, Mars, Jupiter, Mercury],
                  dialogs = []\<rparr>)"
  using second_load_appends
          [of "single_file ''/app/planets.json'' (Parsed (PList mock_data))" "''/app''"
              "''planets.json''" mock_data]
  by (simp add: join_app single_file_def mock_data_well_formed load_data_def py_iter_def
      load_mock SolarSystem_init_def)

text \<open>
  Claim C10: loading is not atomic. When the array's elements before position \<open>k\<close> are
  well-formed and the element at position \<open>k\<close> is an object that lacks a required key,
  \<open>load_data\<close> raises \<open>KeyError\<close> for that key after it has appended the records of the
  \<open>k\<close> elements before: the catalog holds what it held, followed by exactly those \<open>k\<close>
  records (exactly those \<open>k\<close> records, for a new \<open>SolarSystem\<close>).
\<close>

theorem load_stops_at_missing_key:
  assumes "fs (os_path_join base_dir file_path) = Parsed (PList (good @ bad # rest))"
    and "list_all well_formed good"
    and "is_object bad" and "missing_key bad = Some k"
  shows "\<exists>new. (\<forall>self. load_data base_dir fs file_path self
                         = (Inl (KeyError k), self\<lparr>planets := planets self @ new\<rparr>))
             \<and> length new = length good
             \<and> map make_planet good = map Inr new
             \<and> load_data base_dir fs file_path (SolarSystem_init shown)
                 = (Inl (KeyError k), \<lparr>planets = new, dialogs = shown\<rparr>)"
proof -
  obtain new where new: "map make_planet good = map Inr new"
    using well_formed_makes[OF assms(2)] by blast
  have len: "length new = length good" using new by (metis length_map)
  have bad: "make_planet bad = Inl (KeyError k)"
    using assms(3,4) by (rule make_planet_missing_key)
  have run: "load_data base_dir fs file_path self
               = (Inl (KeyError k), self\<lparr>planets := planets self @ new\<rparr>)" for self
    using assms(1) loop_fail[OF new bad] by (simp add: load_data_def py_iter_def)
  have "load_data base_dir fs file_path (SolarSystem_init shown)
          = (Inl (KeyError k), \<lparr>planets = new, dialogs = shown\<rparr>)"
    by (simp add: run SolarSystem_init_def)
  with run len new show ?thesis by blast
qed

theorem load_stops_at_missing_key_witness:
  "list_all well_formed [planet_data_of Earth, planet_data_of Mars]
   \<and> is_object (PDict [(''name'', PStr ''Jupiter''), (''mass'', PStr ''1.8982e27''),
                          (''distance_from_sun'', PStr ''778500000'')])
   \<and> missing_key (PDict [(''name'', PStr ''Jupiter''), (''mass'', PStr ''1.8982e27''),
                          (''distance_from_sun'', PStr ''778500000'')]) = Some ''moons''
   \<and> load_data ''/app''
        (single_file ''/app/planets.json''
           (Parsed (PList ([planet_data_of Earth, planet_data_of Mars]
              @ PDict [(''name'', PStr ''Jupiter''), (''mass'', PStr ''1.8982e27''),
                       (''distance_from_sun'', PStr ''778500000'')]
              # [planet_data_of Mercury]))))
        ''planets.json'' (SolarSystem_init [])
      = (Inl (KeyError ''moons''), \<lparr>planets = [Earth, Mars], dialogs = []\<rparr>)"
  using load_stops_at_missing_key
          [of "single_file ''/app/planets.json''
                 (Parsed (PList ([planet_data_of Earth, planet_data_of Mars]
                    @ PDict [(''name'', PStr ''Jupiter''), (''mass'', PStr ''1.8982e27''),
                             (''distance_from_sun'', PStr ''778500000'')]
                    # [planet_data_of Mercury])))"
              "''/app''" "''planets.json''" "[planet_data_of Earth, planet_data_of Mars]"
              "PDict [(''name'', PStr ''Jupiter''), (''mass'', PStr ''1.8982e27''),
                      (''distance_from_sun'', PStr ''778500000'')]"
              "[planet_data_of Mercury]" "''moons''" "[]"]
  by (simp add: join_app single_file_def load_data_def py_iter_def SolarSystem_init_def
      make_planet_data_of missing_key_no_moons
      well_formed_def is_object_def missing_key_def required_keys_def planet_data_of_def
      make_planet_def py_getitem_def data_defs)

section \<open>What reaches the main program\<close>

text \<open>
  Claim C2, as stated: content that is not valid JSON, or an element that lacks a
  required key, makes loading fail with an error that is handled, and no condition is
  fatal to the process. It fails at start-up: with a data file that is not JSON the run of
  the main program ends with \<open>JSONDecodeError\<close>, and with a data file whose only element
  lacks \<open>moons\<close> it ends with \<open>KeyError\<close>; neither run reaches the event loop or
  shows a dialog.
\<close>

theorem format_error_ends_startup:
  "main ''/app'' (single_file ''/app/planets.json'' Malformed)
     = Crashed JSONDecodeError \<lparr>planets = [], dialogs = []\<rparr>
   \<and> main ''/app''
        (single_file ''/app/planets.json''
           (Parsed (PList [PDict [(''name'', PStr ''Earth''), (''mass'', PStr ''5.97237e24''),
                                  (''distance_from_sun'', PStr ''149600000'')]])))
     = Crashed (KeyError ''moons'') \<lparr>planets = [], dialogs = []\<rparr>"
  by (simp add: main_def SolarSystemApp_init_def load_data_def join_app single_file_def
      SolarSystem_init_def py_iter_def make_planet_def py_getitem_def)

text \<open>
  Claim C2, amended: when the content of the data file is not valid JSON, \<open>load_data\<close>
  raises \<open>JSONDecodeError\<close> and leaves the state as it was; when the first array element
  that is not well-formed is an object that lacks a required key, \<open>load_data\<close> raises
  \<open>KeyError\<close> for the first key it lacks. In both cases no dialog is shown and nothing
  catches the exception: raised while the application starts, it ends the main program
  before the event loop.
\<close>

theorem format_errors_propagate:
  "(fs (os_path_join base_dir file_path) = Malformed \<longrightarrow>
      load_data base_dir fs file_path self = (Inl JSONDecodeError, self))
   \<and> (fs (os_path_join base_dir file_path) = Parsed (PList (good @ bad # rest)) \<longrightarrow>
      list_all well_formed good \<longrightarrow> is_object bad \<longrightarrow> missing_key bad = Some k \<longrightarrow>
        fst (load_data base_dir fs file_path self) = Inl (KeyError k)
      \<and> dialogs (snd (load_data base_dir fs file_path self)) = dialogs self)
   \<and> (fs (os_path_join base_dir ''planets.json'') = Malformed \<longrightarrow>
        main base_dir fs = Crashed JSONDecodeError \<lparr>planets = [], dialogs = []\<rparr>)
   \<and> (fs (os_path_join base_dir ''planets.json'') = Parsed (PList (good @ bad # rest)) \<longrightarrow>
      list_all well_formed good \<longrightarrow> is_object bad \<longrightarrow> missing_key bad = Some k \<longrightarrow>
        (\<exists>w. main base_dir fs = Crashed (KeyError k) w \<and> dialogs w = []))"
proof -
  have malformed: "load_data base_dir fs path self = (Inl JSONDecodeError, self)"
    if "fs (os_path_join base_dir path) = Malformed" for path self
    using that by (simp add: load_data_def)
  have key: "\<exists>new. load_data base_dir fs path self
                 = (Inl (KeyError k), self\<lparr>planets := planets self @ new\<rparr>)"
    if src: "fs (os_path_join base_dir path) = Parsed (PList (good @ bad # rest))"
      and good: "list_all well_formed good"
      and bad: "is_object bad" "missing_key bad = Some k" for path self
  proof -
    obtain new where new: "map make_planet good = map Inr new"
      using well_formed_makes[OF good] by blast
    have "make_planet bad = Inl (KeyError k)"
      using bad by (rule make_planet_missing_key)
    from loop_fail[OF new this] src show ?thesis
      by (auto simp: load_data_def py_iter_def)
  qed
  show ?thesis
  proof (intro conjI impI)
    assume "fs (os_path_join base_dir file_path) = Malformed"
    then show "load_data base_dir fs file_path self = (Inl JSONDecodeError, self)"
      by (rule malformed)
  next
    assume a: "fs (os_path_join base_dir file_path) = Parsed (PList (good @ bad # rest))"
      "list_all well_formed good" "is_object bad" "missing_key bad = Some k"
    from key[OF a, of self]
    show "fst (load_data base_dir fs file_path self) = Inl (KeyError k)"
      and "dialogs (snd (load_data base_dir fs file_path self)) = dialogs self"
      by auto
  next
    assume "fs (os_path_join base_dir ''planets.json'') = Malformed"
    then show "main base_dir fs = Crashed JSONDecodeError \<lparr>planets = [], dialogs = []\<rparr>"
      by (simp add: main_def SolarSystemApp_init_def malformed SolarSystem_init_def)
  next
    assume a: "fs (os_path_join base_dir ''planets.json'') = Parsed (PList (good @ bad # rest))"
      "list_all well_formed good" "is_object bad" "missing_key bad = Some k"
    from key[OF a, of "SolarSystem_init []"]
    show "\<exists>w. main base_dir fs = Crashed (KeyError k) w \<and> dialogs w = []"
      by (auto simp: main_def SolarSystemApp_init_def SolarSystem_init_def)
  qed
qed

theorem format_errors_propagate_witness:
  "single_file ''/app/planets.json'' Malformed (os_path_join ''/app'' ''planets.json'') = Malformed
   \<and> load_data ''/app'' (single_file ''/app/planets.json'' Malformed) ''planets.json''
        \<lparr>planets = [Earth], dialogs = []\<rparr>
      = (Inl JSONDecodeError, \<lparr>planets = [Earth], dialogs = []\<rparr>)
   \<and> main ''/app'' (single_file ''/app/planets.json'' Malformed)
      = Crashed JSONDecodeError \<lparr>planets = [], dialogs = []\<rparr>
   \<and> list_all well_formed [planet_data_of Earth]
   \<and> is_object (PDict [(''name'', PStr ''Mars''), (''mass'', PStr ''6.4171e23''),
                          (''distance_from_sun'', PStr ''227900000'')])
   \<and> missing_key (PDict [(''name'', PStr ''Mars''), (''mass'', PStr ''6.4171e23''),
                          (''distance_from_sun'', PStr ''227900000'')]) = Some ''moons''
   \<and> main ''/app''
        (single_file ''/app/planets.json''
           (Parsed (PList ([planet_data_of Earth]
              @ PDict [(''name'', PStr ''Mars''), (''mass'', PStr ''6.4171e23''),
                       (''distance_from_sun'', PStr ''227900000'')]
              # [planet_data_of Mercury]))))
      = Crashed (KeyError ''moons'') \<lparr>planets = [Earth], dialogs = []\<rparr>"
  using format_errors_propagate
          [of "single_file ''/app/planets.json'' Malformed" "''/app''" "''planets.json''"
              "\<lparr>planets = [Earth], dialogs = []\<rparr>"]
        format_errors_propagate
          [where fs = "single_file ''/app/planets.json''
                 (Parsed (PList ([planet_data_of Earth]
                    @ PDict [(''name'', PStr ''Mars''), (''mass'', PStr ''6.4171e23''),
                             (''distance_from_sun'', PStr ''227900000'')]
                    # [planet_data_of Mercury])))"
             and base_dir = "''/app''" and file_path = "''planets.json''"
             and good = "[planet_data_of Earth]"
             and bad = "PDict [(''name'', PStr ''Mars''), (''mass'', PStr ''6.4171e23''),
                      (''distance_from_sun'', PStr ''227900000'')]"
             and rest = "[planet_data_of Mercury]" and k = "''moons''"
             and self = "SolarSystem_init []"]
  by (simp add: join_app single_file_def main_def SolarSystemApp_init_def load_data_def
      py_iter_def SolarSystem_init_def make_planet_data_of missing_key_no_moons
      well_formed_def is_object_def missing_key_def required_keys_def planet_data_of_def
      make_planet_def py_getitem_def data_defs)

text \<open>
  Claim C3, as stated: a data file that does not exist or is unreadable is reported and
  never raises an unhandled fault. It fails for a file that exists and cannot be opened:
  \<open>open\<close> raises an \<open>OSError\<close> that is not \<open>FileNotFoundError\<close>, the only handler does
  not catch it, and the run of the main program ends with it, no dialog shown.
\<close>

theorem unreadable_file_ends_startup:
  "main ''/app'' (single_file ''/app/planets.json'' Unreadable)
     = Crashed PermissionError \<lparr>planets = [], dialogs = []\<rparr>"
  by (simp add: main_def SolarSystemApp_init_def load_data_def join_app single_file_def
      SolarSystem_init_def)

text \<open>
  Claim C3, amended: when the data file does not exist, \<open>load_data\<close> raises nothing: it
  shows one error dialog whose message ends with the path it tried to open, returns
  normally and leaves the catalog as it was. At start-up the catalog was empty, so the
  main program goes on to the event loop with an empty catalog and that one dialog.
\<close>

theorem missing_file_is_reported:
  assumes "fs (os_path_join base_dir file_path) = Missing"
  shows "load_data base_dir fs file_path self
           = (Inr (), self\<lparr>dialogs := dialogs self
                @ [ShowError ''Error'' (not_found_message (os_path_join base_dir file_path))]\<rparr>)
       \<and> (\<exists>text. not_found_message (os_path_join base_dir file_path)
                    = text @ os_path_join base_dir file_path)
       \<and> planets (snd (load_data base_dir fs file_path self)) = planets self
       \<and> (file_path = ''planets.json'' \<longrightarrow>
            main base_dir fs
              = Mainloop \<lparr>planets = [],
                  dialogs = [ShowError ''Error''
                     (not_found_message (os_path_join base_dir ''planets.json''))]\<rparr>)"
proof -
  have run: "load_data base_dir fs file_path self
           = (Inr (), self\<lparr>dialogs := dialogs self
                @ [ShowError ''Error'' (not_found_message (os_path_join base_dir file_path))]\<rparr>)"
    for self
    using assms by (simp add: load_data_def showerror_def)
  have "\<exists>text. not_found_message (os_path_join base_dir file_path)
                    = text @ os_path_join base_dir file_path"
    unfolding not_found_message_def by (metis append.assoc)
  moreover have "main base_dir fs
              = Mainloop \<lparr>planets = [],
                  dialogs = [ShowError ''Error''
                     (not_found_message (os_path_join base_dir ''planets.json''))]\<rparr>"
    if "file_path = ''planets.json''"
    using run[of "SolarSystem_init []"] that
    by (simp add: main_def SolarSystemApp_init_def SolarSystem_init_def)
  ultimately show ?thesis using run by simp
qed

theorem missing_file_is_reported_witness:
  "single_file ''/app/other.json'' Malformed (os_path_join ''/app'' ''planets.json'') = Missing
   \<and> main ''/app'' (single_file ''/app/other.json'' Malformed)
      = Mainloop \<lparr>planets = [],
          dialogs = [ShowError ''Error''
            (''Data file not found. Ensure '' @ [CHR 0x27] @ ''planets.json'' @ [CHR 0x27]
             @ '' is in the same directory as the script: /app/planets.json'')]\<rparr>"
  using missing_file_is_reported
          [of "single_file ''/app/other.json'' Malformed" "''/app''" "''planets.json''"
              "SolarSystem_init []"]
  by (simp add: join_app single_file_def not_found_message_def)

section \<open>Moon count and detail rendering\<close>

lemma strs_of_strings: "strs_of (map PStr ms) = Inr ms"
  by (induction ms) auto

lemma join_moons: "py_join sep (PList (map PStr ms)) = Inr (str_join sep ms)"
  by (simp add: py_join_def py_iter_def strs_of_strings)

lemma show_nat_small: "show_nat 0 = ''0''" "show_nat (Suc (Suc 0)) = ''2''"
  by (simp_all add: show_nat.simps char_of_eq_iff)

text \<open>
  Claim C7: for a record found by the lookup whose moons are a sequence of text,
  \<open>get_moons\<close> shows the length of that sequence in decimal (\<open>0\<close> for no moons, \<open>2\<close>
  for Phobos and Deimos), and \<open>Planet.__str__\<close> ends with the moons joined by a comma and
  a space (\<open>Phobos, Deimos\<close>), or with \<open>None\<close> when the sequence is empty;
  \<open>show_details\<close> shows that rendering.
\<close>

theorem moon_count_and_rendering:
  assumes "get_planet_by_name entry w = (Inr (Some p), w)"
    and "moons p = PList (map PStr ms)"
  shows "get_moons builtin_str entry w
           = (Inr (), showinfo ''Moon Count''
                (py_format builtin_str (name p) @ '' has '' @ show_nat (length ms) @ '' moon(s).'') w)
       \<and> Planet_str builtin_str p
           = Inr (''Name: '' @ py_format builtin_str (name p) @ [CHR 0x0A]
                @ ''Mass: '' @ py_format builtin_str (mass p) @ '' kg'' @ [CHR 0x0A]
                @ ''Distance from Sun: '' @ py_format builtin_str (distance_from_sun p)
                @ '' km'' @ [CHR 0x0A]
                @ ''Moons: '' @ (if ms = [] then ''None'' else str_join '', '' ms))
       \<and> (\<exists>rendering. Planet_str builtin_str p = Inr rendering
             \<and> show_details builtin_str entry w
                 = (Inr (), showinfo ''Planet Details'' rendering w))
       \<and> (ms = [] \<longrightarrow> show_nat (length ms) = ''0'')
       \<and> (ms = [''Phobos'', ''Deimos''] \<longrightarrow>
             show_nat (length ms) = ''2'' \<and> str_join '', '' ms = ''Phobos, Deimos'')"
proof (intro conjI impI)
  show "get_moons builtin_str entry w
           = (Inr (), showinfo ''Moon Count''
                (py_format builtin_str (name p) @ '' has '' @ show_nat (length ms) @ '' moon(s).'') w)"
    using assms by (simp add: get_moons_def py_len_def)
  show str: "Planet_str builtin_str p
           = Inr (''Name: '' @ py_format builtin_str (name p) @ [CHR 0x0A]
                @ ''Mass: '' @ py_format builtin_str (mass p) @ '' kg'' @ [CHR 0x0A]
                @ ''Distance from Sun: '' @ py_format builtin_str (distance_from_sun p)
                @ '' km'' @ [CHR 0x0A]
                @ ''Moons: '' @ (if ms = [] then ''None'' else str_join '', '' ms))"
    using assms(2) by (simp add: Planet_str_def py_truth_def join_moons)
  show "\<exists>rendering. Planet_str builtin_str p = Inr rendering
             \<and> show_details builtin_str entry w
                 = (Inr (), showinfo ''Planet Details'' rendering w)"
    using assms(1) str by (simp add: show_details_def)
  show "show_nat (length ms) = ''0''" if "ms = []"
    using that by (simp add: show_nat_small)
  show "show_nat (length ms) = ''2''" if "ms = [''Phobos'', ''Deimos'']"
    using that by (simp add: show_nat_small)
  show "str_join '', '' ms = ''Phobos, Deimos''" if "ms = [''Phobos'', ''Deimos'']"
    using that by simp
qed

theorem moon_count_and_rendering_witness:
  "get_planet_by_name ''mars'' \<lparr>planets = [Earth, Mars, Jupiter, Mercury], dialogs = []\<rparr>
     = (Inr (Some Mars), \<lparr>planets = [Earth, Mars, Jupiter, Mercury], dialogs = []\<rparr>)
   \<and> moons Mars = PList (map PStr [''Phobos'', ''Deimos''])
   \<and> (\<forall>builtin_str.
        get_moons builtin_str ''mars'' \<lparr>planets = [Earth, Mars, Jupiter, Mercury], dialogs = []\<rparr>
        = (Inr (), \<lparr>planets = [Earth, Mars, Jupiter, Mercury],
                    dialogs = [ShowInfo ''Moon Count'' ''Mars has 2 moon(s).'']\<rparr>))
   \<and> (\<forall>builtin_str.
        Planet_str builtin_str Mars
        = Inr (''Name: Mars'' @ [CHR 0x0A] @ ''Mass: 6.4171e23 kg'' @ [CHR 0x0A]
             @ ''Distance from Sun: 227900000 km'' @ [CHR 0x0A] @ ''Moons: Phobos, Deimos''))
   \<and> get_planet_by_name ''MERCURY'' \<lparr>planets = [Earth, Mars, Jupiter, Mercury], dialogs = []\<rparr>
     = (Inr (Some Mercury), \<lparr>planets = [Earth, Mars, Jupiter, Mercury], dialogs = []\<rparr>)
   \<and> moons Mercury = PList (map PStr [])
   \<and> (\<forall>builtin_str.
        get_moons builtin_str ''MERCURY'' \<lparr>planets = [Earth, Mars, Jupiter, Mercury], dialogs = []\<rparr>
        = (Inr (), \<lparr>planets = [Earth, Mars, Jupiter, Mercury],
                    dialogs = [ShowInfo ''Moon Count'' ''Mercury has 0 moon(s).'']\<rparr>))
   \<and> (\<forall>builtin_str.
        Planet_str builtin_str Mercury
        = Inr (''Name: Mercury'' @ [CHR 0x0A] @ ''Mass: 3.3011e23 kg'' @ [CHR 0x0A]
             @ ''Distance from Sun: 57910000 km'' @ [CHR 0x0A] @ ''Moons: None''))"
proof -
  have mars: "get_planet_by_name ''mars'' \<lparr>planets = [Earth, Mars, Jupiter, Mercury], dialogs = []\<rparr>
     = (Inr (Some Mars), \<lparr>planets = [Earth, Mars, Jupiter, Mercury], dialogs = []\<rparr>)"
    by (simp add: get_planet_by_name_def data_defs match_defs lower_defs)
  have mercury: "get_planet_by_name ''MERCURY'' \<lparr>planets = [Earth, Mars, Jupiter, Mercury], dialogs = []\<rparr>
     = (Inr (Some Mercury), \<lparr>planets = [Earth, Mars, Jupiter, Mercury], dialogs = []\<rparr>)"
    by (simp add: get_planet_by_name_def data_defs match_defs lower_defs)
  have m2: "moons Mars = PList (map PStr [''Phobos'', ''Deimos''])"
    by (simp add: data_defs)
  have m0: "moons Mercury = PList (map PStr [])"
    by (simp add: data_defs)
  show ?thesis
    using moon_count_and_rendering [OF mars m2] moon_count_and_rendering [OF mercury m0]
      mars mercury m2 m0
    by (simp add: showinfo_def py_format_def data_defs)
qed

end
